theory Spec2Isabelle
  imports Main
begin

section \<open>Python values used by the pipeline\<close>

text \<open>
  A Python \<open>str\<close> is modelled as a \<open>string\<close>, one \<open>char\<close> per code point: the
  char with number \<open>n\<close> stands for the code point \<open>U+n\<close> (the Latin-1 range), except for
  the char \<open>0x95\<close>, which stands for the bullet \<open>U+2022\<close> that the report code tests
  for and writes. \<open>len\<close> is \<open>length\<close>, a slice \<open>s[:n]\<close> is \<open>take n s\<close>.

  A \<open>dict\<close> with a fixed set of possible keys is a record of options: \<open>None\<close> is an
  absent key, and \<open>d.get(k, default)\<close> is \<open>dict_get (k d) default\<close>.
\<close>

definition dict_get :: "'a option \<Rightarrow> 'a \<Rightarrow> 'a" where
  "dict_get v dflt = (case v of None \<Rightarrow> dflt | Some x \<Rightarrow> x)"

subsection \<open>Characters\<close>

definition code :: "char \<Rightarrow> nat" where
  "code c = of_char c"

text \<open>\<open>str.isspace\<close>, also the class \<open>\s\<close> of \<open>re\<close> and what \<open>strip\<close> and \<open>split()\<close> remove.\<close>

definition isspace :: "char \<Rightarrow> bool" where
  "isspace c = (let n = code c in
     (9 \<le> n \<and> n \<le> 13) \<or> (28 \<le> n \<and> n \<le> 32) \<or> n = 133 \<or> n = 160)"

text \<open>The class \<open>\d\<close>: decimal digits.\<close>

definition isdecimal :: "char \<Rightarrow> bool" where
  "isdecimal c = (48 \<le> code c \<and> code c \<le> 57)"

text \<open>The classes \<open>[A-Z]\<close>, \<open>[a-z]\<close> and \<open>[a-zA-Z]\<close>.\<close>

definition is_AZ :: "char \<Rightarrow> bool" where
  "is_AZ c = (65 \<le> code c \<and> code c \<le> 90)"

definition is_az :: "char \<Rightarrow> bool" where
  "is_az c = (97 \<le> code c \<and> code c \<le> 122)"

definition is_azAZ :: "char \<Rightarrow> bool" where
  "is_azAZ c = (is_az c \<or> is_AZ c)"

text \<open>\<open>str.isalnum\<close>: letters, digits and numeric characters.\<close>

definition isalnum :: "char \<Rightarrow> bool" where
  "isalnum c = (let n = code c in
     isdecimal c \<or> is_azAZ c \<or> n = 170 \<or> n = 178 \<or> n = 179 \<or> n = 181 \<or> n = 185 \<or> n = 186
     \<or> (188 \<le> n \<and> n \<le> 190) \<or> (192 \<le> n \<and> n \<noteq> 215 \<and> n \<noteq> 247))"

text \<open>The class \<open>\w\<close>, which decides the word boundary \<open>\b\<close>.\<close>

definition is_word_char :: "char \<Rightarrow> bool" where
  "is_word_char c = (isalnum c \<or> c = CHR ''_'')"

definition lower_char :: "char \<Rightarrow> char" where
  "lower_char c = (let n = code c in
     if (65 \<le> n \<and> n \<le> 90) \<or> (192 \<le> n \<and> n \<le> 222 \<and> n \<noteq> 215) then char_of (n + 32) else c)"

definition upper_char_az :: "char \<Rightarrow> char" where
  "upper_char_az c = (if is_az c then char_of (code c - 32) else c)"

definition bullet_char :: char where
  "bullet_char = CHR 0x95"

subsection \<open>Methods of \<open>str\<close>\<close>

definition lower :: "string \<Rightarrow> string" where
  "lower s = map lower_char s"

definition lstrip :: "string \<Rightarrow> string" where
  "lstrip s = dropWhile isspace s"

definition rstrip :: "string \<Rightarrow> string" where
  "rstrip s = rev (dropWhile isspace (rev s))"

definition strip :: "string \<Rightarrow> string" where
  "strip s = lstrip (rstrip s)"

text \<open>
  The maximal runs of characters that satisfy \<open>P\<close>, left to right; \<open>cur\<close> is the run
  being read.
\<close>

fun runs :: "(char \<Rightarrow> bool) \<Rightarrow> string \<Rightarrow> string \<Rightarrow> string list" where
  "runs P cur [] = (if cur = [] then [] else [cur])"
| "runs P cur (c # cs) =
     (if P c then runs P (cur @ [c]) cs
      else (if cur = [] then [] else [cur]) @ runs P [] cs)"

text \<open>\<open>s.split()\<close>: the maximal runs of non-whitespace characters.\<close>

definition split_ws :: "string \<Rightarrow> string list" where
  "split_ws s = runs (\<lambda>c. \<not> isspace c) [] s"

text \<open>\<open>s.split(sep)\<close> for a one-character separator: empty pieces are kept.\<close>

fun split_on :: "char \<Rightarrow> string \<Rightarrow> string list" where
  "split_on sep [] = [[]]"
| "split_on sep (c # cs) =
     (if c = sep then [] # split_on sep cs
      else (case split_on sep cs of [] \<Rightarrow> [[c]] | w # ws \<Rightarrow> (c # w) # ws))"

fun join :: "string \<Rightarrow> string list \<Rightarrow> string" where
  "join sep [] = []"
| "join sep [x] = x"
| "join sep (x # y # ys) = x @ sep @ join sep (y # ys)"

fun startswith :: "string \<Rightarrow> string \<Rightarrow> bool" where
  "startswith s [] = True"
| "startswith [] (p # ps) = False"
| "startswith (c # cs) (p # ps) = (c = p \<and> startswith cs ps)"

text \<open>\<open>sub in s\<close>.\<close>

fun contains :: "string \<Rightarrow> string \<Rightarrow> bool" where
  "contains [] sub = (sub = [])"
| "contains (c # cs) sub = (startswith (c # cs) sub \<or> contains cs sub)"

text \<open>
  \<open>s.title()\<close>, for the strings it is applied to here, which are runs of ASCII
  letters: a letter that follows a letter is lower-cased, any other letter is
  upper-cased. \<open>prev\<close> tells whether the previous character was a letter.
\<close>

fun title_from :: "bool \<Rightarrow> string \<Rightarrow> string" where
  "title_from prev [] = []"
| "title_from prev (c # cs) =
     (if is_azAZ c then (if prev then lower_char c else upper_char_az c) # title_from True cs
      else c # title_from False cs)"

definition title :: "string \<Rightarrow> string" where
  "title s = title_from False s"

subsection \<open>models/state_schema.py and the dicts the agents build\<close>

record document =
  doc_id :: string
  doc_title :: string
  url :: string
  snippet :: string
  raw_content :: string
  source_domain :: string

record analysis =
  an_keywords :: "string list option"
  themes :: "string list option"
  an_summary :: "string option"
  num_sources :: "nat option"
  content_quality :: "string option"

record validation =
  has_sufficient_sources :: "bool option"
  has_key_themes :: "bool option"
  document_quality :: "string option"
  source_count :: "nat option"
  theme_count :: "nat option"
  recommendations :: "string list option"

record report =
  report_title :: "string option"
  summary_length :: "nat option"
  key_findings :: "string list option"
  report_keywords :: "string list option"
  sources_used :: "nat option"
  validation_status :: "string option"
  validation_score :: "string option"
  error :: "string option"

text \<open>\<open>ResearchState\<close> is a \<open>TypedDict\<close> with \<open>total=False\<close>: every key may be absent.\<close>

record research_state =
  topic_query :: "string option"
  raw_documents :: "document list option"
  analysis_result :: "analysis option"
  validation_result :: "validation option"
  final_summary :: "string option"
  formatted_report :: "report option"
  pdf_path :: "string option"

definition empty_analysis :: analysis where
  "empty_analysis = \<lparr>an_keywords = None, themes = None, an_summary = None, num_sources = None,
     content_quality = None\<rparr>"

definition empty_validation :: validation where
  "empty_validation = \<lparr>has_sufficient_sources = None, has_key_themes = None,
     document_quality = None, source_count = None, theme_count = None,
     recommendations = None\<rparr>"

definition empty_state :: research_state where
  "empty_state = \<lparr>topic_query = None, raw_documents = None, analysis_result = None,
     validation_result = None, final_summary = None, formatted_report = None,
     pdf_path = None\<rparr>"

section \<open>External collaborators\<close>

text \<open>
  The search provider, the language model, the PDF library, \<open>uuid\<close> and the clock are
  outside the repository. They are parameters of the model: each call that may raise
  returns \<open>Inl\<close> of the exception or \<open>Inr\<close> of its value.
\<close>

datatype exn = IndexError | CollaboratorError string

text \<open>\<open>str(e)\<close>.\<close>

fun exn_str :: "exn \<Rightarrow> string" where
  "exn_str IndexError = ''list index out of range''"
| "exn_str (CollaboratorError msg) = msg"

datatype tier = Primary | Secondary | Placeholder

text \<open>One entry of the \<open>results\<close> list of the Tavily client's answer.\<close>

record tavily_result =
  tr_title :: "string option"
  tr_url :: "string option"
  tr_content :: "string option"

text \<open>
  One element of what the LangChain tool returns: a dict, or anything else, which the
  loop skips (\<open>isinstance(result, dict)\<close>).
\<close>

record lc_result =
  lc_title :: "string option"
  lc_url :: "string option"
  lc_snippet :: "string option"
  lc_content :: "string option"

datatype lc_item = LcDict lc_result | LcOther

text \<open>What ReportLab receives: the flowables of the story, each with its style.\<close>

datatype style = title_style | heading1 | heading2 | normal | bullet
  | sample_Heading1 | sample_Heading2 | sample_Normal

datatype flowable = Paragraph string style | Spacer nat nat | PageBreak

datatype pdf_attempt = Full | Simple

text \<open>
  \<^item> \<open>tavily_client_search query max_results\<close>: \<open>Tavily(...).search(...)\<close>, import included;
    the value is the \<open>results\<close> entry of the answer, \<open>None\<close> when the key is absent.
  \<^item> \<open>tavily_tool_invoke max_results query\<close>: \<open>TavilySearchResults(...).invoke(query)\<close>.
  \<^item> \<open>uuid4 t i\<close>: \<open>str(uuid.uuid4())\<close> as drawn for result \<open>i\<close> of tier \<open>t\<close>.
  \<^item> \<open>llm_invoke topic docs_text\<close>: the \<open>content\<close> of the model's answer to
    \<open>SUMMARIZER_PROMPT.format(topic=topic, docs_text=docs_text)\<close>.
  \<^item> \<open>doc_build filename story\<close>: creating the \<open>SimpleDocTemplate\<close> and the flowables
    and building the file.
  \<^item> \<open>timestamp a\<close> and \<open>date_str a\<close>: \<open>datetime.now()\<close> in the two formats used, as read
    while the full report (\<open>Full\<close>) or the simple one (\<open>Simple\<close>) is made.
\<close>

record collaborators =
  tavily_client_search :: "string \<Rightarrow> nat \<Rightarrow> exn + tavily_result list option"
  tavily_tool_invoke :: "nat \<Rightarrow> string \<Rightarrow> exn + lc_item list"
  uuid4 :: "tier \<Rightarrow> nat \<Rightarrow> string"
  llm_invoke :: "string \<Rightarrow> string \<Rightarrow> exn + string"
  doc_build :: "string \<Rightarrow> flowable list \<Rightarrow> exn + unit"
  timestamp :: "pdf_attempt \<Rightarrow> string"
  date_str :: "pdf_attempt \<Rightarrow> string"

section \<open>agents/search_agent.py\<close>

text \<open>
  \<open>result.get("url", "").split("/")[2] if result.get("url") else "unknown"\<close>: the index
  raises when the URL has fewer than two slashes.
\<close>

definition source_domain_of :: "string option \<Rightarrow> exn + string" where
  "source_domain_of u =
     (if dict_get u [] \<noteq> [] then
        (case split_on (CHR ''/'') (dict_get u []) of
           a # b # c # rest \<Rightarrow> Inr c
         | _ \<Rightarrow> Inl IndexError)
      else Inr ''unknown'')"

text \<open>The first loop of \<open>_tavily_search\<close>; an exception leaves the loop and the \<open>try\<close>.\<close>

fun tavily_docs :: "collaborators \<Rightarrow> string \<Rightarrow> nat \<Rightarrow> tavily_result list \<Rightarrow> exn + document list" where
  "tavily_docs env query i [] = Inr []"
| "tavily_docs env query i (result # results) =
     (case source_domain_of (tr_url result) of
        Inl e \<Rightarrow> Inl e
      | Inr host \<Rightarrow>
          (case tavily_docs env query (i + 1) results of
             Inl e \<Rightarrow> Inl e
           | Inr docs \<Rightarrow> Inr (\<lparr>doc_id = take 8 (uuid4 env Primary i),
               doc_title = dict_get (tr_title result) query,
               url = dict_get (tr_url result) [],
               snippet = take 200 (dict_get (tr_content result) []),
               raw_content = dict_get (tr_content result) [],
               source_domain = host\<rparr> # docs)))"

text \<open>The second loop.\<close>

fun langchain_docs :: "collaborators \<Rightarrow> string \<Rightarrow> nat \<Rightarrow> lc_item list \<Rightarrow> exn + document list" where
  "langchain_docs env query i [] = Inr []"
| "langchain_docs env query i (LcOther # results) = langchain_docs env query i results"
| "langchain_docs env query i (LcDict result # results) =
     (case source_domain_of (lc_url result) of
        Inl e \<Rightarrow> Inl e
      | Inr host \<Rightarrow>
          (case langchain_docs env query (i + 1) results of
             Inl e \<Rightarrow> Inl e
           | Inr docs \<Rightarrow> Inr (\<lparr>doc_id = take 8 (uuid4 env Secondary i),
               doc_title = dict_get (lc_title result) query,
               url = dict_get (lc_url result) [],
               snippet = dict_get (lc_snippet result) (take 200 (dict_get (lc_content result) [])),
               raw_content = dict_get (lc_content result) (dict_get (lc_snippet result) []),
               source_domain = host\<rparr> # docs)))"

text \<open>The body of each \<open>try\<close> up to its \<open>if docs\<close>.\<close>

definition primary_tier :: "collaborators \<Rightarrow> string \<Rightarrow> nat \<Rightarrow> exn + document list" where
  "primary_tier env query max_results =
     (case tavily_client_search env query max_results of
        Inl e \<Rightarrow> Inl e
      | Inr results \<Rightarrow> tavily_docs env query 0 (dict_get results []))"

definition secondary_tier :: "collaborators \<Rightarrow> string \<Rightarrow> nat \<Rightarrow> exn + document list" where
  "secondary_tier env query max_results =
     (case tavily_tool_invoke env max_results query of
        Inl e \<Rightarrow> Inl e
      | Inr results \<Rightarrow> langchain_docs env query 0 results)"

definition simulated_documents :: "string \<Rightarrow> document list" where
  "simulated_documents query =
     [\<lparr>doc_id = ''sim_1'',
       doc_title = ''Research on '' @ query,
       url = ''https://example.com/simulated'',
       snippet = ''Simulated content for '' @ query @ ''. Please check your Tavily API key.'',
       raw_content = ''This is simulated content for the topic: '' @ query
         @ ''. In a real deployment, this would contain actual research content from web sources.'',
       source_domain = ''simulated.com''\<rparr>]"

text \<open>
  \<open>_tavily_search\<close>. A tier that raised or built no document falls through to the next
  one. The first component lists the tiers that were entered, in order.
\<close>

definition tavily_search :: "collaborators \<Rightarrow> string \<Rightarrow> nat \<Rightarrow> tier list \<times> document list" where
  "tavily_search env query max_results =
     (case primary_tier env query max_results of
        Inr (d # docs) \<Rightarrow> ([Primary], d # docs)
      | _ \<Rightarrow>
          (case secondary_tier env query max_results of
             Inr (d # docs) \<Rightarrow> ([Primary, Secondary], d # docs)
           | _ \<Rightarrow> ([Primary, Secondary, Placeholder], simulated_documents query)))"

definition search_agent :: "collaborators \<Rightarrow> research_state \<Rightarrow> tier list \<times> research_state" where
  "search_agent env state =
     (let query = strip (dict_get (topic_query state) [])
      in if query = [] then ([], empty_state\<lparr>raw_documents := Some []\<rparr>)
         else (let (entered, docs) = tavily_search env query 5
               in (entered, empty_state\<lparr>raw_documents := Some docs\<rparr>)))"

section \<open>agents/summarizer_agent.py\<close>

definition newline :: char where
  "newline = CHR 0x0A"

definition docs_text_of :: "document list \<Rightarrow> string" where
  "docs_text_of docs =
     join [newline, newline]
       (map (\<lambda>d. ''Title: '' @ doc_title d @ [newline] @ ''Content: '' @ raw_content d) docs)
     @ [newline, newline]
     @ ''Please summarize concisely within 600-700 words with bullet points, include clear points and short paragraphs''"

definition summarizer_agent :: "collaborators \<Rightarrow> research_state \<Rightarrow> research_state" where
  "summarizer_agent env state =
     (let topic = dict_get (topic_query state) [];
          docs = dict_get (raw_documents state) [];
          summary_text =
            (case llm_invoke env topic (docs_text_of docs) of
               Inr content \<Rightarrow> strip content
             | Inl e \<Rightarrow> ''Topic: '' @ topic @ [newline]
                 @ ''Error generating structured summary. Please check your API configuration or input.'')
      in empty_state\<lparr>final_summary := Some summary_text\<rparr>)"

section \<open>agents/validator_agent.py\<close>

text \<open>
  The three \<open>if\<close> statements append to the \<open>recommendations\<close> list in source order.
  \<open>not analysis.get("themes")\<close> holds when the key is absent or the list is empty.
\<close>

definition validator_recommendations :: "document list \<Rightarrow> analysis \<Rightarrow> string list" where
  "validator_recommendations docs an =
     (if length docs < 2 then [''Consider expanding search with more specific terms''] else [])
     @ (if dict_get (themes an) [] = [] then [''Analysis may need deeper processing''] else [])
     @ (if length docs \<ge> 5 then [''Excellent source diversity''] else [])"

definition validator_agent :: "research_state \<Rightarrow> research_state" where
  "validator_agent state =
     (let an = dict_get (analysis_result state) empty_analysis;
          docs = dict_get (raw_documents state) []
      in empty_state\<lparr>validation_result := Some
           \<lparr>has_sufficient_sources = Some (length docs \<ge> 3),
            has_key_themes = Some (length (dict_get (themes an) []) > 0),
            document_quality = Some (if length docs > 2 then ''good'' else ''poor''),
            source_count = Some (length docs),
            theme_count = Some (length (dict_get (themes an) [])),
            recommendations = Some (validator_recommendations docs an)\<rparr>\<rparr>)"

section \<open>agents/analysis_agent.py\<close>

text \<open>
  \<open>re.findall(r"\b[a-zA-Z]{n,}\b", text)\<close>. A match starts and ends at a word boundary and
  holds ASCII letters only, so it is a maximal run of word characters (\<open>\w\<close>), all of
  them ASCII letters, of length at least \<open>n\<close>; a run that holds a digit, an underscore
  or a non-ASCII letter gives no match, since no boundary lies inside a run.
\<close>

definition findall_letters :: "nat \<Rightarrow> string \<Rightarrow> string list" where
  "findall_letters n text =
     filter (\<lambda>w. list_all is_azAZ w \<and> n \<le> length w) (runs is_word_char [] text)"

text \<open>
  A \<open>Counter\<close> is a dict that keeps its keys in first-seen order: an association list.
  \<open>most_common(n)\<close> is \<open>heapq.nlargest\<close> by count, which is
  \<open>sorted(items, key=count, reverse=True)[:n]\<close>: a stable sort, so equal counts stay in
  first-seen order.
\<close>

fun counter_add :: "(string \<times> nat) list \<Rightarrow> string \<Rightarrow> (string \<times> nat) list" where
  "counter_add [] w = [(w, 1)]"
| "counter_add ((k, c) # kcs) w =
     (if k = w then (k, c + 1) # kcs else (k, c) # counter_add kcs w)"

definition Counter :: "string list \<Rightarrow> (string \<times> nat) list" where
  "Counter ws = foldl counter_add [] ws"

definition most_common :: "nat \<Rightarrow> (string \<times> nat) list \<Rightarrow> (string \<times> nat) list" where
  "most_common n cnt = take n (sort_key (\<lambda>(w, c). - int c) cnt)"

definition stop_words_fixed :: "string list" where
  "stop_words_fixed = [''the'', ''and'', ''for'', ''with'', ''that'', ''this'', ''from'', ''have'',
     ''has'', ''been'', ''are'', ''were'', ''their'']"

definition extract_meaningful_themes :: "string list \<Rightarrow> string \<Rightarrow> string list" where
  "extract_meaningful_themes texts topic =
     (let full_text = lower (join '' '' texts);
          stop_words = set stop_words_fixed \<union> set (split_ws (lower topic));
          words = findall_letters 5 full_text;
          filtered_words = filter (\<lambda>w. w \<notin> stop_words) words;
          common_words = most_common 8 (Counter filtered_words);
          themes = map (\<lambda>(word, count). title word) (filter (\<lambda>(word, count). count > 1) common_words)
      in take 5 themes)"

definition analyze_agent :: "research_state \<Rightarrow> research_state" where
  "analyze_agent state =
     (let docs = dict_get (raw_documents state) [];
          topic = dict_get (topic_query state) [];
          all_texts = map raw_content (filter (\<lambda>d. raw_content d \<noteq> []) docs)
      in if all_texts = [] then
           empty_state\<lparr>analysis_result := Some
             \<lparr>an_keywords = Some [], themes = Some [], an_summary = Some ''No content to analyze'',
              num_sources = Some 0, content_quality = None\<rparr>\<rparr>
         else
           (let themes = extract_meaningful_themes all_texts topic;
                words = findall_letters 4 (lower (join '' '' all_texts));
                common_words = most_common 12 (Counter words);
                keywords = map fst common_words
            in empty_state\<lparr>analysis_result := Some
                 \<lparr>an_keywords = Some (take 10 keywords), themes = Some themes, an_summary = None,
                  num_sources = Some (length docs),
                  content_quality = Some (if length all_texts > 3 then ''good'' else ''limited'')\<rparr>\<rparr>))"

section \<open>utils/pdf_utils.py: the regular expressions\<close>

text \<open>
  \<open>re.sub(r'#+\s*', '', s)\<close>: every \<open>#\<close> is removed, and so is the whitespace that
  follows a run of \<open>#\<close>, across line ends. The flag tells whether the previous
  character was removed by a match that is still open.
\<close>

fun remove_headers_from :: "bool \<Rightarrow> string \<Rightarrow> string" where
  "remove_headers_from in_match [] = []"
| "remove_headers_from in_match (c # cs) =
     (if c = CHR ''#'' then remove_headers_from True cs
      else if in_match \<and> isspace c then remove_headers_from True cs
      else c # remove_headers_from False cs)"

definition remove_headers :: "string \<Rightarrow> string" where
  "remove_headers s = remove_headers_from False s"

text \<open>
  \<open>re.match(r'^\d+\.\s+[A-Z]', line)\<close>: digits, a dot, whitespace, a capital letter, at
  the start of the line.
\<close>

definition match_numbered_heading :: "string \<Rightarrow> bool" where
  "match_numbered_heading line =
     (takeWhile isdecimal line \<noteq> [] \<and>
      (case dropWhile isdecimal line of
         [] \<Rightarrow> False
       | dot # rest \<Rightarrow> dot = CHR ''.'' \<and> takeWhile isspace rest \<noteq> [] \<and>
           (case dropWhile isspace rest of [] \<Rightarrow> False | u # _ \<Rightarrow> is_AZ u)))"

text \<open>
  \<open>re.match(r'^[A-Z][a-z]+(?:\s+[A-Z][a-z]+)*\s*$', line)\<close>: the whole line is a
  sequence of capitalised words separated by whitespace, with optional whitespace at the
  end. The automaton reads a capital (\<open>TcCapital\<close>), then lower-case letters
  (\<open>TcWord\<close>), then whitespace (\<open>TcSpace\<close>), and accepts in the last two states.
\<close>

datatype tc_state = TcStart | TcCapital | TcWord | TcSpace | TcReject

fun tc_step :: "tc_state \<Rightarrow> char \<Rightarrow> tc_state" where
  "tc_step TcStart c = (if is_AZ c then TcCapital else TcReject)"
| "tc_step TcCapital c = (if is_az c then TcWord else TcReject)"
| "tc_step TcWord c = (if is_az c then TcWord else if isspace c then TcSpace else TcReject)"
| "tc_step TcSpace c = (if isspace c then TcSpace else if is_AZ c then TcCapital else TcReject)"
| "tc_step TcReject c = TcReject"

definition match_title_case :: "string \<Rightarrow> bool" where
  "match_title_case line = (foldl tc_step TcStart line \<in> {TcWord, TcSpace})"

text \<open>\<open>re.match(r'^\d+\.', s)\<close> and \<open>re.match(r'^\*\s', s)\<close>.\<close>

definition match_number_dot :: "string \<Rightarrow> bool" where
  "match_number_dot s =
     (takeWhile isdecimal s \<noteq> [] \<and>
      (case dropWhile isdecimal s of [] \<Rightarrow> False | dot # _ \<Rightarrow> dot = CHR ''.''))"

definition match_star_space :: "string \<Rightarrow> bool" where
  "match_star_space s = (case s of a # b # _ \<Rightarrow> a = CHR ''*'' \<and> isspace b | _ \<Rightarrow> False)"

text \<open>
  \<open>re.sub(r'^[\<bullet>*\-]\s*', '', s)\<close>, \<open>re.sub(r'^\d+\.\s*', '', s)\<close> and
  \<open>re.sub(r'^\*\s', '', s)\<close>: anchored at the start, so at most one replacement.
\<close>

definition sub_bullet_marker :: "string \<Rightarrow> string" where
  "sub_bullet_marker s =
     (case s of
        [] \<Rightarrow> []
      | c # cs \<Rightarrow> if c = bullet_char \<or> c = CHR ''*'' \<or> c = CHR ''-'' then dropWhile isspace cs else s)"

definition sub_number_prefix :: "string \<Rightarrow> string" where
  "sub_number_prefix s =
     (if match_number_dot s then dropWhile isspace (drop 1 (dropWhile isdecimal s)) else s)"

definition sub_star_space :: "string \<Rightarrow> string" where
  "sub_star_space s = (if match_star_space s then drop 2 s else s)"

text \<open>\<open>re.sub(r'\s+', ' ', s)\<close>: each run of whitespace becomes one space.\<close>

fun collapse_spaces_from :: "bool \<Rightarrow> string \<Rightarrow> string" where
  "collapse_spaces_from in_run [] = []"
| "collapse_spaces_from in_run (c # cs) =
     (if isspace c then (if in_run then [] else '' '') @ collapse_spaces_from True cs
      else c # collapse_spaces_from False cs)"

definition collapse_spaces :: "string \<Rightarrow> string" where
  "collapse_spaces s = collapse_spaces_from False s"

text \<open>
  \<open>re.sub(r'\*\*(.*?)\*\*', r'\1', s)\<close> and \<open>re.sub(r'\*(.*?)\*', r'\1', s)\<close>, with the
  delimiter \<open>**\<close> or \<open>*\<close>: at an opening delimiter the lazy group ends at the first
  closing delimiter on the same line (\<open>.\<close> does not match a line end); both delimiters
  are dropped and the scan goes on after the closing one. \<open>find_delim\<close> returns the text
  before the first delimiter and the text after it.
\<close>

fun find_delim :: "string \<Rightarrow> string \<Rightarrow> (string \<times> string) option" where
  "find_delim d [] = (if d = [] then Some ([], []) else None)"
| "find_delim d (c # cs) =
     (if startswith (c # cs) d then Some ([], drop (length d) (c # cs))
      else if c = CHR 0x0A then None
      else (case find_delim d cs of None \<Rightarrow> None | Some (inner, rest) \<Rightarrow> Some (c # inner, rest)))"

function sub_delimited :: "string \<Rightarrow> string \<Rightarrow> string" where
  "sub_delimited d [] = []"
| "sub_delimited d (c # cs) =
     (if d \<noteq> [] \<and> startswith (c # cs) d then
        (case find_delim d (drop (length d) (c # cs)) of
           Some (inner, rest) \<Rightarrow> inner @ sub_delimited d rest
         | None \<Rightarrow> c # sub_delimited d cs)
      else c # sub_delimited d cs)"
  by pat_completeness auto
termination
proof (relation "measure (\<lambda>(d, s). length s)")
  show "wf (measure (\<lambda>(d, s). length s))" by simp
next
  fix d :: string and c :: char and cs x2 inner rest
  assume d: "d \<noteq> [] \<and> startswith (c # cs) d"
    and f: "find_delim d (drop (length d) (c # cs)) = Some x2" and x2: "(inner, rest) = x2"
  have shorter: "find_delim d s = Some (i, r) \<Longrightarrow> length r \<le> length s" for s i r
    by (induction s arbitrary: i) (auto split: if_splits option.splits)
  from f x2 have "length rest \<le> length (drop (length d) (c # cs))"
    using shorter by metis
  moreover from d have "length (drop (length d) (c # cs)) < length (c # cs)"
    by (cases d) auto
  ultimately show "((d, rest), (d, c # cs)) \<in> measure (\<lambda>(d, s). length s)" by simp
qed auto

definition remove_bold :: "string \<Rightarrow> string" where
  "remove_bold s = sub_delimited ''**'' s"

definition remove_italic :: "string \<Rightarrow> string" where
  "remove_italic s = sub_delimited ''*'' s"

section \<open>utils/pdf_utils.py: structuring the summary\<close>

text \<open>
  A section dict. The first, untitled section has no \<open>number\<close> key, so \<open>number\<close> is an
  option.
\<close>

record report_section =
  sec_title :: string
  content :: "string list"
  original_title :: string
  number :: "nat option"

definition header_keywords :: "string list" where
  "header_keywords = [''introduction'', ''methodology'', ''approach'', ''key insights'',
     ''challenges'', ''research gaps'', ''real-world applications'',
     ''future scope'', ''opportunities'', ''conclusion'', ''references'',
     ''summary'', ''analysis'', ''results'', ''discussion'', ''applications'',
     ''research summary'']"

definition is_header :: "string \<Rightarrow> bool" where
  "is_header line =
     (match_numbered_heading line \<or> match_title_case line
      \<or> list_ex (\<lambda>keyword. contains (lower line) keyword) header_keywords)"

text \<open>\<open>current_section["title"] or current_section["content"]\<close>.\<close>

definition section_nonempty :: "report_section \<Rightarrow> bool" where
  "section_nonempty sec = (sec_title sec \<noteq> [] \<or> content sec \<noteq> [])"

text \<open>
  The \<open>for\<close> loop of \<open>clean_summary_text\<close> over the lines, with the variables
  \<open>sections\<close>, \<open>current_section\<close> and \<open>section_counter\<close>, and the final append.
\<close>

fun structure_lines :: "report_section list \<Rightarrow> report_section \<Rightarrow> nat \<Rightarrow> string list \<Rightarrow> report_section list" where
  "structure_lines sections current_section section_counter [] =
     (if section_nonempty current_section then sections @ [current_section] else sections)"
| "structure_lines sections current_section section_counter (raw_line # lines) =
     (if strip raw_line = [] then
        structure_lines sections current_section section_counter lines
      else if is_header (strip raw_line) \<and> length (strip raw_line) < 100 then
        structure_lines
          (if section_nonempty current_section then sections @ [current_section] else sections)
          \<lparr>sec_title = strip raw_line, content = [], original_title = strip raw_line,
           number = Some (section_counter + 1)\<rparr>
          (section_counter + 1) lines
      else
        structure_lines sections
          (current_section\<lparr>content := content current_section @ [strip raw_line]\<rparr>)
          section_counter lines)"

definition initial_section :: report_section where
  "initial_section = \<lparr>sec_title = [], content = [], original_title = [], number = None\<rparr>"

definition clean_summary_text :: "string \<Rightarrow> report_section list" where
  "clean_summary_text summary =
     structure_lines [] initial_section 0 (split_on (CHR 0x0A) (remove_headers summary))"

text \<open>The three substitutions that both bullet functions apply to a line.\<close>

definition clean_line_of :: "string \<Rightarrow> string" where
  "clean_line_of line = remove_headers (remove_italic (remove_bold line))"

definition is_bullet_line :: "string \<Rightarrow> bool" where
  "is_bullet_line clean_line =
     (startswith clean_line [bullet_char] \<or> startswith clean_line ''*''
      \<or> startswith clean_line ''-'' \<or> match_number_dot clean_line \<or> match_star_space clean_line)"

definition final_line_of :: "string \<Rightarrow> string" where
  "final_line_of clean_line = sub_star_space (sub_number_prefix (sub_bullet_marker clean_line))"

definition extract_bullet_content :: "string \<Rightarrow> string list" where
  "extract_bullet_content text =
     concat (map (\<lambda>raw_line.
         let clean_line = clean_line_of (strip raw_line)
         in if is_bullet_line clean_line \<and> strip (final_line_of clean_line) \<noteq> []
            then [strip (final_line_of clean_line)] else [])
       (split_on (CHR 0x0A) text))"

definition format_bullet_points :: "string \<Rightarrow> flowable list" where
  "format_bullet_points text =
     concat (map (\<lambda>raw_line.
         let line = strip raw_line; clean_line = clean_line_of line
         in if line = [] then []
            else if strip clean_line = [] then []
            else if is_bullet_line clean_line then
              (if strip (final_line_of clean_line) \<noteq> []
               then [Paragraph ([bullet_char] @ '' '' @ strip (final_line_of clean_line)) bullet]
               else [])
            else [Paragraph (strip clean_line) normal])
       (split_on (CHR 0x0A) text))"

section \<open>utils/pdf_utils.py: building the report\<close>

text \<open>\<open>str(n)\<close> for a non-negative integer.\<close>

fun str_nat :: "nat \<Rightarrow> string" where
  "str_nat n = (if n < 10 then [char_of (48 + n)] else str_nat (n div 10) @ [char_of (48 + n mod 10)])"

text \<open>
  The body of the loop over the sections in \<open>generate_pdf\<close>: the flowables that one
  section adds to the story. The \<open>continue\<close> adds nothing.
\<close>

definition clean_title_of :: "string \<Rightarrow> string" where
  "clean_title_of section_title = strip (collapse_spaces (sub_number_prefix section_title))"

definition section_skipped :: "report_section \<Rightarrow> bool" where
  "section_skipped sec =
     (strip (sec_title sec) \<noteq> []
      \<and> contains (lower (clean_title_of (strip (sec_title sec)))) ''research summary''
      \<and> dict_get (number sec) 0 = 1)"

definition render_title :: "report_section \<Rightarrow> flowable list" where
  "render_title sec =
     (let section_title = strip (sec_title sec); section_number = dict_get (number sec) 0
      in if section_title \<noteq> [] then
           [Paragraph (if section_number > 0
                       then str_nat section_number @ ''. '' @ clean_title_of section_title
                       else clean_title_of section_title) heading2,
            Spacer 1 8]
         else [])"

definition render_content :: "report_section \<Rightarrow> flowable list" where
  "render_content sec =
     (if content sec \<noteq> [] then
        (let combined_content = join '' '' (content sec);
             bullets = extract_bullet_content combined_content
         in if bullets \<noteq> [] then
              concat (map (\<lambda>b. [Paragraph ([bullet_char] @ '' '' @ b) bullet, Spacer 1 2]) bullets)
            else
              concat (map (\<lambda>para. [para, Spacer 1 3]) (format_bullet_points combined_content)))
      else [])"

definition render_section :: "report_section \<Rightarrow> flowable list" where
  "render_section sec =
     (if section_skipped sec then []
      else render_title sec @ render_content sec @ [Spacer 1 10])"

text \<open>The quality page, the analysis page and the reference list.\<close>

definition quality_assessment :: "validation \<Rightarrow> flowable list" where
  "quality_assessment validation =
     (if validation \<noteq> empty_validation then
        concat (map (\<lambda>metric. [Paragraph metric normal, Spacer 1 5])
          [''<b>Source Quality:</b> '' @ dict_get (document_quality validation) ''Unknown'',
           ''<b>Sources Analyzed:</b> '' @ str_nat (dict_get (source_count validation) 0),
           ''<b>Themes Identified:</b> '' @ str_nat (dict_get (theme_count validation) 0),
           ''<b>Sufficient Sources:</b> ''
             @ (if has_sufficient_sources validation = Some True then ''Yes'' else ''No'')])
        @ [Spacer 1 10, Paragraph ''Recommendations:'' heading2]
        @ map (\<lambda>rec. Paragraph ([bullet_char] @ '' '' @ rec) bullet)
            (dict_get (recommendations validation) [])
      else [])"

definition analysis_results :: "analysis \<Rightarrow> flowable list" where
  "analysis_results an =
     (if an \<noteq> empty_analysis then
        [Paragraph ''Key Themes Identified:'' heading2]
        @ map (\<lambda>theme. Paragraph ([bullet_char] @ '' '' @ theme) bullet)
            (take 8 (dict_get (themes an) []))
        @ [Spacer 1 15, Paragraph ''Top Keywords:'' heading2,
           Paragraph (join '', '' (take 12 (dict_get (an_keywords an) []))) normal]
      else [])"

definition indent16 :: string where
  "indent16 = replicate 16 (CHR '' '')"

definition source_entry :: "nat \<Rightarrow> document \<Rightarrow> flowable list" where
  "source_entry i doc =
     (let clean_snippet = remove_headers (remove_italic (remove_bold (snippet doc)));
          clean_snippet = (if length clean_snippet > 150 then take 150 clean_snippet @ ''...''
                           else clean_snippet)
      in [Paragraph ([CHR 0x0A] @ indent16 @ ''<b>Source '' @ str_nat i @ '': '' @ doc_title doc
             @ ''</b><br/>'' @ [CHR 0x0A] @ indent16 @ ''<i>Domain: '' @ source_domain doc
             @ ''</i><br/>'' @ [CHR 0x0A] @ indent16 @ clean_snippet @ [CHR 0x0A] @ indent16) normal,
          Spacer 1 12])"

definition reference_sources :: "document list \<Rightarrow> flowable list" where
  "reference_sources documents =
     (if documents \<noteq> [] then
        [PageBreak, Paragraph ''Reference Sources'' heading1, Spacer 1 15]
        @ concat (map (\<lambda>(i, doc). source_entry i doc) (zip [1 ..< length documents + 1] documents))
      else [])"

text \<open>
  \<open>"".join(c for c in topic if c.isalnum() or c in (' ', '-', '_')).rstrip()\<close>.
\<close>

definition safe_topic_of :: "string \<Rightarrow> string" where
  "safe_topic_of topic =
     rstrip (filter (\<lambda>c. isalnum c \<or> c = CHR '' '' \<or> c = CHR ''-'' \<or> c = CHR ''_'') topic)"

definition full_story :: "(pdf_attempt \<Rightarrow> string) \<Rightarrow> string \<Rightarrow> string \<Rightarrow> analysis \<Rightarrow> document list
    \<Rightarrow> validation \<Rightarrow> flowable list" where
  "full_story date topic summary an documents validation =
     [Paragraph ''Research Report'' title_style, Spacer 1 20,
      Paragraph topic title_style, Spacer 1 40,
      Paragraph (''Generated on: '' @ date Full) normal,
      Paragraph ''Smart Research Assistant - LangGraph Multi-Agent System'' normal,
      PageBreak,
      Paragraph ''Research Quality Assessment'' heading1, Spacer 1 15]
     @ quality_assessment validation
     @ [PageBreak, Paragraph ''Analysis Results'' heading1, Spacer 1 15]
     @ analysis_results an
     @ [PageBreak, Paragraph ''Executive Summary'' heading1, Spacer 1 15]
     @ concat (map render_section (clean_summary_text summary))
     @ reference_sources documents"

text \<open>\<open>clean_summary.split('\n\n')\<close>.\<close>

fun split_blank_lines :: "string \<Rightarrow> string list" where
  "split_blank_lines [] = [[]]"
| "split_blank_lines [a] = [[a]]"
| "split_blank_lines (a # b # cs) =
     (if a = CHR 0x0A \<and> b = CHR 0x0A then [] # split_blank_lines cs
      else (case split_blank_lines (b # cs) of [] \<Rightarrow> [[a]] | w # ws \<Rightarrow> (a # w) # ws))"

definition simple_story :: "(pdf_attempt \<Rightarrow> string) \<Rightarrow> string \<Rightarrow> string \<Rightarrow> flowable list" where
  "simple_story date topic summary =
     [Paragraph (''Research Report: '' @ topic) sample_Heading1, Spacer 1 20,
      Paragraph (''Generated on: '' @ date Simple) sample_Normal, Spacer 1 30,
      Paragraph ''Executive Summary'' sample_Heading2, Spacer 1 15]
     @ concat (map (\<lambda>para. if strip para \<noteq> [] then [Paragraph (strip para) sample_Normal, Spacer 1 10]
                            else [])
         (split_blank_lines (remove_headers (remove_italic (remove_bold summary)))))"

text \<open>
  \<open>generate_simple_pdf\<close> and \<open>generate_pdf\<close>. Each wraps its whole body in
  \<open>try ... except Exception\<close>: the simple report returns the empty string when it
  fails, the full report falls back to the simple one. Neither raises.
\<close>

definition generate_simple_pdf :: "collaborators \<Rightarrow> string \<Rightarrow> string \<Rightarrow> string" where
  "generate_simple_pdf env topic summary =
     (let filename = ''outputs/Research_Report_'' @ safe_topic_of topic @ ''_''
            @ timestamp env Simple @ ''.pdf''
      in case doc_build env filename (simple_story (date_str env) topic summary) of
           Inr u \<Rightarrow> filename
         | Inl e \<Rightarrow> [])"

definition generate_pdf :: "collaborators \<Rightarrow> string \<Rightarrow> string \<Rightarrow> analysis \<Rightarrow> document list
    \<Rightarrow> validation \<Rightarrow> string" where
  "generate_pdf env topic summary an documents validation =
     (let filename = ''outputs/Research_Report_'' @ take 50 (safe_topic_of topic) @ ''_''
            @ timestamp env Full @ ''.pdf''
      in case doc_build env filename
                (full_story (date_str env) topic summary an documents validation) of
           Inr u \<Rightarrow> filename
         | Inl e \<Rightarrow> generate_simple_pdf env topic summary)"

section \<open>agents/formatter_agent.py\<close>

text \<open>
  The body of the \<open>try\<close>. Its only call that is not a dict or list operation is
  \<open>generate_pdf\<close>, which returns a string in every case, so the body always ends with
  its \<open>return\<close>.
\<close>

definition formatter_try :: "collaborators \<Rightarrow> research_state \<Rightarrow> exn + research_state" where
  "formatter_try env state =
     (let topic = dict_get (topic_query state) [];
          summary = dict_get (final_summary state) [];
          an = dict_get (analysis_result state) empty_analysis;
          docs = dict_get (raw_documents state) [];
          validation = dict_get (validation_result state) empty_validation;
          path = generate_pdf env topic summary an docs validation
      in Inr (empty_state\<lparr>
           formatted_report := Some
             \<lparr>report_title = Some (''Research Report: '' @ topic),
              summary_length = Some (length summary),
              key_findings = Some (dict_get (themes an) []),
              report_keywords = Some (take 10 (dict_get (an_keywords an) [])),
              sources_used = Some (length docs),
              validation_status = Some (dict_get (document_quality validation) ''unknown''),
              validation_score = Some (if has_sufficient_sources validation = Some True
                                       then ''High'' else ''Medium''),
              error = None\<rparr>,
           pdf_path := Some path\<rparr>))"

text \<open>The \<open>except\<close> branch.\<close>

definition formatter_fallback :: "research_state \<Rightarrow> exn \<Rightarrow> research_state" where
  "formatter_fallback state e =
     empty_state\<lparr>
       formatted_report := Some
         \<lparr>report_title = Some (''Research Report: '' @ dict_get (topic_query state) []),
          summary_length = Some (length (dict_get (final_summary state) [])),
          key_findings = Some (dict_get (themes (dict_get (analysis_result state) empty_analysis)) []),
          report_keywords = None,
          sources_used = Some (length (dict_get (raw_documents state) [])),
          validation_status = Some ''error'',
          validation_score = None,
          error = Some (''PDF generation failed: '' @ exn_str e)\<rparr>,
       pdf_path := Some []\<rparr>"

definition formatter_agent :: "collaborators \<Rightarrow> research_state \<Rightarrow> research_state" where
  "formatter_agent env state =
     (case formatter_try env state of
        Inr formatted_output \<Rightarrow> formatted_output
      | Inl e \<Rightarrow> formatter_fallback state e)"

section \<open>main.py\<close>

text \<open>
  The graph: five nodes on a line, then \<open>END\<close>. A node returns a dict, and the graph
  writes its keys over the state's.
\<close>

datatype node = search_node | analyze_node | validator_node | summarize_node | formatter_node | END

fun next_node :: "node \<Rightarrow> node" where
  "next_node search_node = analyze_node"
| "next_node analyze_node = validator_node"
| "next_node validator_node = summarize_node"
| "next_node summarize_node = formatter_node"
| "next_node formatter_node = END"
| "next_node END = END"

definition override :: "'a option \<Rightarrow> 'a option \<Rightarrow> 'a option" where
  "override old new = (case new of None \<Rightarrow> old | Some v \<Rightarrow> Some v)"

definition merge_state :: "research_state \<Rightarrow> research_state \<Rightarrow> research_state" where
  "merge_state state upd =
     \<lparr>topic_query = override (topic_query state) (topic_query upd),
      raw_documents = override (raw_documents state) (raw_documents upd),
      analysis_result = override (analysis_result state) (analysis_result upd),
      validation_result = override (validation_result state) (validation_result upd),
      final_summary = override (final_summary state) (final_summary upd),
      formatted_report = override (formatted_report state) (formatted_report upd),
      pdf_path = override (pdf_path state) (pdf_path upd)\<rparr>"

fun run_node :: "collaborators \<Rightarrow> node \<Rightarrow> research_state \<Rightarrow> research_state" where
  "run_node env search_node state = snd (search_agent env state)"
| "run_node env analyze_node state = analyze_agent state"
| "run_node env validator_node state = validator_agent state"
| "run_node env summarize_node state = summarizer_agent env state"
| "run_node env formatter_node state = formatter_agent env state"
| "run_node env END state = empty_state"

text \<open>
  \<open>app.invoke\<close>: run the current node, merge, follow the edge, until \<open>END\<close>. \<open>limit\<close>
  is the number of steps the graph may take (LangGraph stops a run after
  \<open>recursion_limit\<close> steps, 25 unless configured). The result is the node where the
  run stopped, with the state there.
\<close>

fun invoke :: "nat \<Rightarrow> collaborators \<Rightarrow> node \<Rightarrow> research_state \<Rightarrow> node \<times> research_state" where
  "invoke limit env END state = (END, state)"
| "invoke 0 env current state = (current, state)"
| "invoke (Suc limit) env current state =
     invoke limit env (next_node current) (merge_state state (run_node env current state))"

definition run_research_workflow :: "collaborators \<Rightarrow> string \<Rightarrow> node \<times> research_state" where
  "run_research_workflow env topic =
     invoke 25 env search_node (empty_state\<lparr>topic_query := Some topic\<rparr>)"

section \<open>Concrete inputs\<close>

definition example_document :: "string \<Rightarrow> document" where
  "example_document text = \<lparr>doc_id = ''sim_1'', doc_title = ''Research'', url = ''https://example.com/simulated'',
     snippet = take 200 text, raw_content = text, source_domain = ''simulated.com''\<rparr>"

definition example_state :: research_state where
  "example_state = empty_state\<lparr>topic_query := Some ''Machine Learning'',
     raw_documents := Some [example_document
       ''Machine learning uses neural nets. Neural models in machine learning.'']\<rparr>"

definition no_content_state :: research_state where
  "no_content_state = empty_state\<lparr>topic_query := Some ''Machine Learning'',
     raw_documents := Some [example_document []]\<rparr>"

text \<open>Collaborators that are all out of reach: every call raises.\<close>

definition unreachable :: collaborators where
  "unreachable =
     \<lparr>tavily_client_search = (\<lambda>query max_results. Inl (CollaboratorError ''connection refused'')),
      tavily_tool_invoke = (\<lambda>max_results query. Inl (CollaboratorError ''connection refused'')),
      uuid4 = (\<lambda>t i. ''1b4e28ba-2fa1-11d2-883f-0016d3cca427''),
      llm_invoke = (\<lambda>topic docs_text. Inl (CollaboratorError ''connection refused'')),
      doc_build = (\<lambda>filename story. Inl (CollaboratorError ''cannot write file'')),
      timestamp = (\<lambda>a. ''20250101_120000''),
      date_str = (\<lambda>a. ''January 01, 2025 at 12:00'')\<rparr>"

text \<open>
  The first provider is out of reach and the second one answers with one result whose
  \<open>snippet\<close> has 201 characters.
\<close>

definition long_snippet_provider :: collaborators where
  "long_snippet_provider = unreachable\<lparr>tavily_tool_invoke := (\<lambda>max_results query.
     Inr [LcDict \<lparr>lc_title = Some ''A result'', lc_url = Some ''https://example.com/a'',
       lc_snippet = Some (replicate 201 (CHR ''a'')), lc_content = Some ''short''\<rparr>])\<rparr>"

text \<open>The narrative of the round-trip example, and one that opens with a longer title.\<close>

definition roundtrip_summary :: string where
  "roundtrip_summary = ''# Introduction'' @ [CHR 0x0A] @ ''This is text.'' @ [CHR 0x0A]
     @ ''# Conclusion'' @ [CHR 0x0A] @ ''- point one'' @ [CHR 0x0A] @ ''- point two''"

definition findings_summary :: string where
  "findings_summary = ''Research Summary Of Findings'' @ [CHR 0x0A] @ ''Costs fell by half.''"


text \<open>A state as the first four stages leave it.\<close>

definition upstream_state :: research_state where
  "upstream_state =
     \<lparr>topic_query = Some ''Machine Learning'',
      raw_documents = Some [example_document
        ''Machine learning uses neural nets. Neural models in machine learning.''],
      analysis_result = Some
        \<lparr>an_keywords = Some [''machine'', ''learning'', ''neural'', ''uses'', ''nets'', ''models''],
         themes = Some [''Neural''], an_summary = None, num_sources = Some 1,
         content_quality = Some ''limited''\<rparr>,
      validation_result = Some
        \<lparr>has_sufficient_sources = Some False, has_key_themes = Some True,
         document_quality = Some ''poor'', source_count = Some 1, theme_count = Some 1,
         recommendations = Some [''Consider expanding search with more specific terms'']\<rparr>,
      final_summary = Some roundtrip_summary,
      formatted_report = None,
      pdf_path = None\<rparr>"

section \<open>Notions used in the statements\<close>

text \<open>A tier failed: its \<open>try\<close> raised, or it built no document.\<close>

definition tier_failed :: "exn + document list \<Rightarrow> bool" where
  "tier_failed r = (case r of Inl e \<Rightarrow> True | Inr docs \<Rightarrow> docs = [])"


section \<open>Properties\<close>

subsection \<open>Sufficiency validator\<close>

lemma validator_agent_result:
  "validation_result (validator_agent state) = Some
     \<lparr>has_sufficient_sources = Some (length (dict_get (raw_documents state) []) \<ge> 3),
      has_key_themes = Some (length (dict_get (themes (dict_get (analysis_result state) empty_analysis)) []) > 0),
      document_quality = Some (if length (dict_get (raw_documents state) []) > 2 then ''good'' else ''poor''),
      source_count = Some (length (dict_get (raw_documents state) [])),
      theme_count = Some (length (dict_get (themes (dict_get (analysis_result state) empty_analysis)) [])),
      recommendations = Some (validator_recommendations (dict_get (raw_documents state) [])
         (dict_get (analysis_result state) empty_analysis))\<rparr>"
  by (simp add: validator_agent_def Let_def)

text \<open>
  C1. For every workflow state, with \<open>d\<close> the number of documents and \<open>t\<close> the number of
  themes of the state, the validation result has \<open>has_sufficient_sources\<close> true exactly
  when \<open>d \<ge> 3\<close>, \<open>document_quality\<close> equal to \<open>good\<close> exactly when \<open>d > 2\<close> and to
  \<open>poor\<close> otherwise, and \<open>has_key_themes\<close> true exactly when \<open>t > 0\<close>; so
  \<open>has_sufficient_sources\<close> is true exactly when the quality is \<open>good\<close>.
\<close>

theorem validator_thresholds:
  "let d = length (dict_get (raw_documents state) []);
       t = length (dict_get (themes (dict_get (analysis_result state) empty_analysis)) [])
   in \<exists>v. validation_result (validator_agent state) = Some v
      \<and> has_sufficient_sources v = Some (d \<ge> 3)
      \<and> document_quality v = Some (if d > 2 then ''good'' else ''poor'')
      \<and> (document_quality v = Some ''good'') = (d > 2)
      \<and> has_key_themes v = Some (t > 0)
      \<and> (has_sufficient_sources v = Some True) = (document_quality v = Some ''good'')
      \<and> source_count v = Some d \<and> theme_count v = Some t"
  unfolding Let_def validator_agent_result by auto

text \<open>
  C7. For every document count \<open>d\<close> and theme count \<open>t\<close>, the recommendations are the
  messages, in the fixed order expand-search, deeper-processing, excellent-diversity,
  whose conditions \<open>d < 2\<close>, \<open>t = 0\<close> and \<open>d \<ge> 5\<close> hold.
\<close>

theorem validator_recommendations_order:
  "let d = length (dict_get (raw_documents state) []);
       t = length (dict_get (themes (dict_get (analysis_result state) empty_analysis)) [])
   in \<exists>v. validation_result (validator_agent state) = Some v
      \<and> recommendations v = Some (
           (if d < 2 then [''Consider expanding search with more specific terms''] else [])
           @ (if t = 0 then [''Analysis may need deeper processing''] else [])
           @ (if d \<ge> 5 then [''Excellent source diversity''] else []))"
  unfolding Let_def validator_agent_result by (simp add: validator_recommendations_def)

text \<open>One document and no theme: both messages, expand-search first.\<close>

theorem validator_recommendations_order_witness:
  "\<exists>v. validation_result (validator_agent (empty_state\<lparr>
        raw_documents := Some [\<lparr>doc_id = ''sim_1'', doc_title = ''t'', url = ''u'', snippet = ''s'',
          raw_content = ''c'', source_domain = ''simulated.com''\<rparr>],
        analysis_result := Some (empty_analysis\<lparr>themes := Some []\<rparr>)\<rparr>)) = Some v
     \<and> recommendations v = Some [''Consider expanding search with more specific terms'',
          ''Analysis may need deeper processing'']"
  using validator_recommendations_order [of "empty_state\<lparr>
        raw_documents := Some [\<lparr>doc_id = ''sim_1'', doc_title = ''t'', url = ''u'', snippet = ''s'',
          raw_content = ''c'', source_domain = ''simulated.com''\<rparr>],
        analysis_result := Some (empty_analysis\<lparr>themes := Some []\<rparr>)\<rparr>"]
  by (simp add: dict_get_def empty_state_def empty_analysis_def)

subsection \<open>Lexical analyzer\<close>

lemma isspace_lower_char: "isspace (lower_char c) = isspace c"
  by (auto simp: isspace_def lower_char_def code_def Let_def)

lemma lower_char_not_AZ: "\<not> is_AZ (lower_char c)"
  by (auto simp: is_AZ_def lower_char_def code_def Let_def)

lemma lower_char_az: "is_az c \<Longrightarrow> lower_char c = c"
  by (auto simp: is_az_def lower_char_def code_def Let_def)

lemma lower_upper_az: "is_az c \<Longrightarrow> lower_char (upper_char_az c) = c"
  by (auto simp: is_az_def upper_char_az_def lower_char_def code_def Let_def)

lemma runs_chars: "w \<in> set (runs P cur s) \<Longrightarrow> set w \<subseteq> set cur \<union> set s"
proof (induction s arbitrary: cur)
  case Nil
  then show ?case by (auto split: if_splits)
next
  case (Cons c cs)
  show ?case
  proof (cases "P c")
    case True
    with Cons.prems have "w \<in> set (runs P (cur @ [c]) cs)" by simp
    from Cons.IH[OF this] show ?thesis by auto
  next
    case False
    with Cons.prems have "w = cur \<or> w \<in> set (runs P [] cs)" by (auto split: if_splits)
    then show ?thesis using Cons.IH[of "[]"] by auto
  qed
qed

lemma runs_map:
  assumes P: "\<And>c. P (f c) = P c"
  shows "runs P (map f cur) (map f s) = map (map f) (runs P cur s)"
proof (induction s arbitrary: cur)
  case Nil
  show ?case by simp
next
  case (Cons c cs)
  show ?case
  proof (cases "P c")
    case True
    then show ?thesis using Cons[of "cur @ [c]"] by (simp add: P)
  next
    case False
    then show ?thesis using Cons[of "[]"] by (simp add: P)
  qed
qed

lemma split_ws_lower: "split_ws (lower s) = map lower (split_ws s)"
  unfolding split_ws_def lower_def
  using runs_map[of "\<lambda>c. \<not> isspace c" lower_char "[]" s]
  by (simp add: isspace_lower_char)

lemma lower_title_from: "list_all is_az w \<Longrightarrow> lower (title_from b w) = w"
  by (induction w arbitrary: b) (auto simp: lower_def lower_char_az lower_upper_az is_azAZ_def)

lemma counter_add_keys: "fst ` set (counter_add cnt w) = insert w (fst ` set cnt)"
  by (induction cnt w rule: counter_add.induct) auto

lemma foldl_counter_keys: "fst ` set (foldl counter_add cnt ws) = fst ` set cnt \<union> set ws"
  by (induction ws arbitrary: cnt) (auto simp: counter_add_keys)

lemma Counter_keys: "fst ` set (Counter ws) = set ws"
  by (simp add: Counter_def foldl_counter_keys)

lemma most_common_subset: "set (most_common n cnt) \<subseteq> set cnt"
  unfolding most_common_def by (metis set_sort set_take_subset)

lemma findall_lower_az:
  assumes "w \<in> set (findall_letters n (lower text))"
  shows "list_all is_az w"
proof -
  from assms have letters: "list_all is_azAZ w" and "w \<in> set (runs is_word_char [] (lower text))"
    by (auto simp: findall_letters_def)
  then have sub: "set w \<subseteq> set (lower text)" using runs_chars by fastforce
  have "is_az c" if "c \<in> set w" for c
  proof -
    from that sub obtain c' where "c = lower_char c'" by (auto simp: lower_def)
    then have "\<not> is_AZ c" by (simp add: lower_char_not_AZ)
    moreover from letters that have "is_azAZ c" by (simp add: list_all_iff)
    ultimately show ?thesis by (simp add: is_azAZ_def)
  qed
  then show ?thesis by (simp add: list_all_iff)
qed

lemma theme_origin:
  assumes "th \<in> set (extract_meaningful_themes texts topic)"
  shows "\<exists>w. th = title w \<and> list_all is_az w \<and> w \<notin> set (split_ws (lower topic))"
proof -
  let ?words = "findall_letters 5 (lower (join '' '' texts))"
  let ?stop = "set stop_words_fixed \<union> set (split_ws (lower topic))"
  let ?filtered = "filter (\<lambda>w. w \<notin> ?stop) ?words"
  from assms have "th \<in> set (map (\<lambda>(word, count). title word)
      (filter (\<lambda>(word, count). count > 1) (most_common 8 (Counter ?filtered))))"
    unfolding extract_meaningful_themes_def Let_def by (meson in_set_takeD)
  then obtain w c where th: "th = title w" and wc: "(w, c) \<in> set (most_common 8 (Counter ?filtered))"
    by auto
  from wc have "(w, c) \<in> set (Counter ?filtered)" using most_common_subset by blast
  then have "w \<in> fst ` set (Counter ?filtered)" by force
  then have "w \<in> set ?filtered" by (simp only: Counter_keys)
  then have "w \<in> set ?words" and "w \<notin> ?stop" by auto
  with th show ?thesis using findall_lower_az by blast
qed

lemma theme_not_topic_word:
  assumes th: "th \<in> set (extract_meaningful_themes texts topic)"
    and tw: "t \<in> set (split_ws topic)"
  shows "lower th \<noteq> lower t"
proof
  assume eq: "lower th = lower t"
  from theme_origin[OF th] obtain w where w: "th = title w" "list_all is_az w"
    "w \<notin> set (split_ws (lower topic))" by blast
  from w have "lower th = w" by (simp add: title_def lower_title_from)
  with eq have "w = lower t" by simp
  with tw have "w \<in> set (split_ws (lower topic))" by (simp add: split_ws_lower)
  with w show False by simp
qed


lemma analyze_agent_result:
  "\<exists>a kws ths. analysis_result (analyze_agent state) = Some a
     \<and> an_keywords a = Some kws \<and> themes a = Some ths \<and> length kws \<le> 10
     \<and> (ths = [] \<or> ths = extract_meaningful_themes
           (map raw_content (filter (\<lambda>d. raw_content d \<noteq> []) (dict_get (raw_documents state) [])))
           (dict_get (topic_query state) []))
     \<and> (filter (\<lambda>d. raw_content d \<noteq> []) (dict_get (raw_documents state) []) = []
          \<longrightarrow> kws = [] \<and> ths = [])"
  by (simp add: analyze_agent_def Let_def)

lemma extract_meaningful_themes_length: "length (extract_meaningful_themes texts topic) \<le> 5"
  by (simp add: extract_meaningful_themes_def Let_def)

text \<open>
  C2. For every document collection and topic string the analyzer returns a result: at
  most 10 keywords, at most 5 themes, no theme equal, after lower-casing both, to a
  whitespace-separated word of the topic, and no keyword and no theme at all when no
  document has a non-empty text.
\<close>

theorem analyze_agent_bounds:
  "\<exists>a kws ths. analysis_result (analyze_agent state) = Some a
     \<and> an_keywords a = Some kws \<and> themes a = Some ths
     \<and> length kws \<le> 10 \<and> length ths \<le> 5
     \<and> (\<forall>th \<in> set ths. \<forall>t \<in> set (split_ws (dict_get (topic_query state) [])). lower th \<noteq> lower t)
     \<and> (filter (\<lambda>d. raw_content d \<noteq> []) (dict_get (raw_documents state) []) = []
          \<longrightarrow> kws = [] \<and> ths = [])"
proof -
  from analyze_agent_result[of state] obtain a kws ths where
    r: "analysis_result (analyze_agent state) = Some a" "an_keywords a = Some kws"
       "themes a = Some ths" "length kws \<le> 10"
    and ths: "ths = [] \<or> ths = extract_meaningful_themes
           (map raw_content (filter (\<lambda>d. raw_content d \<noteq> []) (dict_get (raw_documents state) [])))
           (dict_get (topic_query state) [])"
    and e: "filter (\<lambda>d. raw_content d \<noteq> []) (dict_get (raw_documents state) []) = []
          \<longrightarrow> kws = [] \<and> ths = []"
    by blast
  from ths have len: "length ths \<le> 5"
    using extract_meaningful_themes_length by auto
  from ths have excl: "\<forall>th \<in> set ths. \<forall>t \<in> set (split_ws (dict_get (topic_query state) [])).
      lower th \<noteq> lower t"
    using theme_not_topic_word by auto
  from r len excl e show ?thesis by blast
qed

text \<open>
  One document about the topic \<open>Machine Learning\<close>: the only theme is \<open>Neural\<close>, the
  topic's own words are left out although each occurs twice; a document with an empty
  text gives no keyword and no theme.
\<close>

theorem analyze_agent_bounds_witness:
  "split_ws ''Machine Learning'' = [''Machine'', ''Learning'']
   \<and> (\<exists>a. analysis_result (analyze_agent example_state) = Some a
        \<and> an_keywords a = Some [''machine'', ''learning'', ''neural'', ''uses'', ''nets'', ''models'']
        \<and> themes a = Some [''Neural'']
        \<and> lower ''Neural'' \<noteq> lower ''Machine'' \<and> lower ''Neural'' \<noteq> lower ''Learning'')
   \<and> (\<exists>a. analysis_result (analyze_agent no_content_state) = Some a
        \<and> an_keywords a = Some [] \<and> themes a = Some [])"
proof -
  have topic: "dict_get (topic_query example_state) [] = ''Machine Learning''"
    by (simp add: example_state_def dict_get_def)
  have words: "split_ws ''Machine Learning'' = [''Machine'', ''Learning'']"
    by code_simp
  have run: "analysis_result (analyze_agent example_state) = Some
      \<lparr>an_keywords = Some [''machine'', ''learning'', ''neural'', ''uses'', ''nets'', ''models''],
       themes = Some [''Neural''], an_summary = None, num_sources = Some 1,
       content_quality = Some ''limited''\<rparr>"
    by code_simp
  have none: "filter (\<lambda>d. raw_content d \<noteq> []) (dict_get (raw_documents no_content_state) []) = []"
    by (simp add: no_content_state_def example_document_def dict_get_def)
  from analyze_agent_bounds[of example_state]
  have a: "lower ''Neural'' \<noteq> lower ''Machine'' \<and> lower ''Neural'' \<noteq> lower ''Learning''"
    unfolding topic words run by simp
  from analyze_agent_bounds[of no_content_state] none
  have b: "\<exists>a. analysis_result (analyze_agent no_content_state) = Some a
        \<and> an_keywords a = Some [] \<and> themes a = Some []"
    by auto
  from words run a b show ?thesis by simp
qed

subsection \<open>Search stage and workflow\<close>

lemma strip_blank: "list_all isspace s \<Longrightarrow> strip s = []"
proof -
  assume a: "list_all isspace s"
  then have inner: "dropWhile isspace (rev s) = []" by (simp add: list_all_iff)
  show ?thesis by (simp only: strip_def lstrip_def rstrip_def inner rev.simps dropWhile.simps)
qed

lemma search_agent_blank:
  "strip (dict_get (topic_query state) []) = [] \<Longrightarrow>
     search_agent env state = ([], empty_state\<lparr>raw_documents := Some []\<rparr>)"
  by (simp add: search_agent_def)

lemma analyze_agent_no_documents:
  "dict_get (raw_documents state) [] = [] \<Longrightarrow>
     analyze_agent state = empty_state\<lparr>analysis_result := Some
       \<lparr>an_keywords = Some [], themes = Some [], an_summary = Some ''No content to analyze'',
        num_sources = Some 0, content_quality = None\<rparr>\<rparr>"
  by (simp add: analyze_agent_def)

text \<open>
  C10. For every topic that is empty or all whitespace the search stage enters no tier
  and returns an empty document list, so no placeholder is made, and the analyzer, run
  on the merged state, takes its no-content branch.
\<close>

theorem search_agent_blank_topic:
  assumes "list_all isspace (dict_get (topic_query state) [])"
  shows "search_agent env state = ([], empty_state\<lparr>raw_documents := Some []\<rparr>)
    \<and> analyze_agent (merge_state state (snd (search_agent env state))) =
        empty_state\<lparr>analysis_result := Some
          \<lparr>an_keywords = Some [], themes = Some [], an_summary = Some ''No content to analyze'',
           num_sources = Some 0, content_quality = None\<rparr>\<rparr>"
proof -
  from assms have blank: "strip (dict_get (topic_query state) []) = []" by (rule strip_blank)
  then have s: "search_agent env state = ([], empty_state\<lparr>raw_documents := Some []\<rparr>)"
    by (rule search_agent_blank)
  have "dict_get (raw_documents (merge_state state (snd (search_agent env state)))) [] = []"
    unfolding s by (simp add: merge_state_def override_def empty_state_def dict_get_def)
  then show ?thesis using s analyze_agent_no_documents by simp
qed

theorem search_agent_blank_topic_witness:
  "list_all isspace ''   ''
   \<and> search_agent unreachable (empty_state\<lparr>topic_query := Some ''   ''\<rparr>)
       = ([], empty_state\<lparr>raw_documents := Some []\<rparr>)"
  using search_agent_blank_topic[of "empty_state\<lparr>topic_query := Some ''   ''\<rparr>" unreachable]
  by (simp add: dict_get_def empty_state_def isspace_def code_def)

lemma tavily_search_fallback:
  "tier_failed (primary_tier env query n) \<Longrightarrow> tier_failed (secondary_tier env query n) \<Longrightarrow>
     tavily_search env query n = ([Primary, Secondary, Placeholder], simulated_documents query)"
  by (auto simp: tavily_search_def tier_failed_def split: sum.splits list.splits)

lemma search_agent_raw_documents:
  "\<exists>docs. snd (search_agent env state) = empty_state\<lparr>raw_documents := Some docs\<rparr>"
  unfolding search_agent_def Let_def by (auto split: prod.splits)

lemma analyze_agent_shape:
  "\<exists>a. analyze_agent state = empty_state\<lparr>analysis_result := Some a\<rparr>"
proof (cases "map raw_content (filter (\<lambda>d. raw_content d \<noteq> []) (dict_get (raw_documents state) [])) = []")
  case True
  then have "analyze_agent state = empty_state\<lparr>analysis_result := Some
             \<lparr>an_keywords = Some [], themes = Some [], an_summary = Some ''No content to analyze'',
              num_sources = Some 0, content_quality = None\<rparr>\<rparr>"
    unfolding analyze_agent_def Let_def by simp
  then show ?thesis by (rule exI)
next
  case False
  show ?thesis unfolding analyze_agent_def Let_def if_not_P[OF False] by (rule exI, rule refl)
qed

lemma validator_agent_shape:
  "\<exists>v. validator_agent state = empty_state\<lparr>validation_result := Some v\<rparr>"
  unfolding validator_agent_def Let_def by blast

lemma summarizer_agent_shape:
  "\<exists>t. summarizer_agent env state = empty_state\<lparr>final_summary := Some t\<rparr>"
  unfolding summarizer_agent_def Let_def by blast

lemma formatter_agent_shape:
  "\<exists>r p. formatter_agent env state = empty_state\<lparr>formatted_report := Some r, pdf_path := Some p\<rparr>"
  unfolding formatter_agent_def formatter_try_def Let_def sum.case by (rule exI, rule exI, rule refl)

lemma run_reaches_END: "fst (run_research_workflow env topic) = END"
  by (simp add: run_research_workflow_def eval_nat_numeral)

lemma run_upstream_fields:
  "\<exists>docs a v t r p.
     snd (search_agent env (empty_state\<lparr>topic_query := Some topic\<rparr>))
       = empty_state\<lparr>raw_documents := Some docs\<rparr>
     \<and> analyze_agent (empty_state\<lparr>topic_query := Some topic, raw_documents := Some docs\<rparr>)
       = empty_state\<lparr>analysis_result := Some a\<rparr>
     \<and> validator_agent (empty_state\<lparr>topic_query := Some topic, raw_documents := Some docs,
         analysis_result := Some a\<rparr>) = empty_state\<lparr>validation_result := Some v\<rparr>
     \<and> summarizer_agent env (empty_state\<lparr>topic_query := Some topic, raw_documents := Some docs,
         analysis_result := Some a, validation_result := Some v\<rparr>)
       = empty_state\<lparr>final_summary := Some t\<rparr>
     \<and> formatter_agent env (empty_state\<lparr>topic_query := Some topic, raw_documents := Some docs,
         analysis_result := Some a, validation_result := Some v, final_summary := Some t\<rparr>)
       = empty_state\<lparr>formatted_report := Some r, pdf_path := Some p\<rparr>
     \<and> run_research_workflow env topic = (END, \<lparr>topic_query = Some topic, raw_documents = Some docs,
         analysis_result = Some a, validation_result = Some v, final_summary = Some t,
         formatted_report = Some r, pdf_path = Some p\<rparr>)"
proof -
  let ?s0 = "empty_state\<lparr>topic_query := Some topic\<rparr>"
  obtain docs where d: "snd (search_agent env ?s0) = empty_state\<lparr>raw_documents := Some docs\<rparr>"
    using search_agent_raw_documents by blast
  let ?s1 = "empty_state\<lparr>topic_query := Some topic, raw_documents := Some docs\<rparr>"
  obtain a where a: "analyze_agent ?s1 = empty_state\<lparr>analysis_result := Some a\<rparr>"
    using analyze_agent_shape by blast
  let ?s2 = "empty_state\<lparr>topic_query := Some topic, raw_documents := Some docs,
         analysis_result := Some a\<rparr>"
  obtain v where v: "validator_agent ?s2 = empty_state\<lparr>validation_result := Some v\<rparr>"
    using validator_agent_shape by blast
  let ?s3 = "empty_state\<lparr>topic_query := Some topic, raw_documents := Some docs,
         analysis_result := Some a, validation_result := Some v\<rparr>"
  obtain t where t: "summarizer_agent env ?s3 = empty_state\<lparr>final_summary := Some t\<rparr>"
    using summarizer_agent_shape by blast
  let ?s4 = "empty_state\<lparr>topic_query := Some topic, raw_documents := Some docs,
         analysis_result := Some a, validation_result := Some v, final_summary := Some t\<rparr>"
  obtain r p where r: "formatter_agent env ?s4
      = empty_state\<lparr>formatted_report := Some r, pdf_path := Some p\<rparr>"
    using formatter_agent_shape by blast
  have m1: "merge_state ?s0 (empty_state\<lparr>raw_documents := Some docs\<rparr>) = ?s1"
    by (simp add: merge_state_def override_def empty_state_def)
  have m2: "merge_state ?s1 (empty_state\<lparr>analysis_result := Some a\<rparr>) = ?s2"
    by (simp add: merge_state_def override_def empty_state_def)
  have m3: "merge_state ?s2 (empty_state\<lparr>validation_result := Some v\<rparr>) = ?s3"
    by (simp add: merge_state_def override_def empty_state_def)
  have m4: "merge_state ?s3 (empty_state\<lparr>final_summary := Some t\<rparr>) = ?s4"
    by (simp add: merge_state_def override_def empty_state_def)
  have m5: "merge_state ?s4 (empty_state\<lparr>formatted_report := Some r, pdf_path := Some p\<rparr>)
      = \<lparr>topic_query = Some topic, raw_documents = Some docs,
         analysis_result = Some a, validation_result = Some v, final_summary = Some t,
         formatted_report = Some r, pdf_path = Some p\<rparr>"
    by (simp add: merge_state_def override_def empty_state_def)
  have "run_research_workflow env topic = (END, \<lparr>topic_query = Some topic, raw_documents = Some docs,
         analysis_result = Some a, validation_result = Some v, final_summary = Some t,
         formatted_report = Some r, pdf_path = Some p\<rparr>)"
    by (simp add: run_research_workflow_def eval_nat_numeral d m1 a m2 v m3 t m4 r m5)
  with d a v t r show ?thesis by blast
qed

text \<open>
  C3, amended. If the topic is not empty after its surrounding whitespace is stripped,
  and the primary and the secondary tier each raise or build no document for the
  stripped query, then the search stage returns exactly one document, the simulated
  placeholder for the stripped query; the run ends in \<open>END\<close> with that document list.
\<close>

theorem search_fallback_placeholder:
  assumes "strip topic \<noteq> []"
    and "tier_failed (primary_tier env (strip topic) 5)"
    and "tier_failed (secondary_tier env (strip topic) 5)"
  shows "search_agent env (empty_state\<lparr>topic_query := Some topic\<rparr>)
       = ([Primary, Secondary, Placeholder],
          empty_state\<lparr>raw_documents := Some (simulated_documents (strip topic))\<rparr>)
    \<and> length (simulated_documents (strip topic)) = 1
    \<and> fst (run_research_workflow env topic) = END
    \<and> raw_documents (snd (run_research_workflow env topic))
       = Some (simulated_documents (strip topic))"
proof -
  have s: "search_agent env (empty_state\<lparr>topic_query := Some topic\<rparr>)
       = ([Primary, Secondary, Placeholder],
          empty_state\<lparr>raw_documents := Some (simulated_documents (strip topic))\<rparr>)"
    using assms by (simp add: search_agent_def tavily_search_fallback dict_get_def empty_state_def)
  from run_upstream_fields[of env topic] obtain docs a v t r p where
    d: "snd (search_agent env (empty_state\<lparr>topic_query := Some topic\<rparr>))
       = empty_state\<lparr>raw_documents := Some docs\<rparr>"
    and run: "run_research_workflow env topic = (END, \<lparr>topic_query = Some topic, raw_documents = Some docs,
         analysis_result = Some a, validation_result = Some v, final_summary = Some t,
         formatted_report = Some r, pdf_path = Some p\<rparr>)"
    by blast
  from d s have "docs = simulated_documents (strip topic)"
    by (simp add: empty_state_def)
  with run s show ?thesis by (simp add: simulated_documents_def)
qed

theorem search_fallback_placeholder_witness:
  "strip ''Machine Learning'' = ''Machine Learning''
   \<and> tier_failed (primary_tier unreachable ''Machine Learning'' 5)
   \<and> tier_failed (secondary_tier unreachable ''Machine Learning'' 5)
   \<and> fst (run_research_workflow unreachable ''Machine Learning'') = END
   \<and> raw_documents (snd (run_research_workflow unreachable ''Machine Learning''))
       = Some [\<lparr>doc_id = ''sim_1'', doc_title = ''Research on Machine Learning'',
           url = ''https://example.com/simulated'',
           snippet = ''Simulated content for Machine Learning. Please check your Tavily API key.'',
           raw_content = ''This is simulated content for the topic: Machine Learning. In a real deployment, this would contain actual research content from web sources.'',
           source_domain = ''simulated.com''\<rparr>]"
proof -
  have q: "strip ''Machine Learning'' = ''Machine Learning''" by code_simp
  have p1: "tier_failed (primary_tier unreachable ''Machine Learning'' 5)"
    by (simp add: tier_failed_def primary_tier_def unreachable_def)
  have p2: "tier_failed (secondary_tier unreachable ''Machine Learning'' 5)"
    by (simp add: tier_failed_def secondary_tier_def unreachable_def)
  from search_fallback_placeholder[of "''Machine Learning''" unreachable] q p1 p2
  show ?thesis by (simp add: simulated_documents_def)
qed

text \<open>
  C3 as stated fails for a topic that is not empty but blank: the topic of one space,
  with both tiers out of reach, gives no document at all.
\<close>

theorem whitespace_topic_counterexample:
  "'' '' \<noteq> []
   \<and> tier_failed (primary_tier unreachable '' '' 5)
   \<and> tier_failed (secondary_tier unreachable '' '' 5)
   \<and> search_agent unreachable (empty_state\<lparr>topic_query := Some '' ''\<rparr>)
       = ([], empty_state\<lparr>raw_documents := Some []\<rparr>)
   \<and> raw_documents (snd (run_research_workflow unreachable '' '')) = Some []"
proof -
  have b: "strip '' '' = []" by code_simp
  have s: "search_agent unreachable (empty_state\<lparr>topic_query := Some '' ''\<rparr>)
       = ([], empty_state\<lparr>raw_documents := Some []\<rparr>)"
    using b by (simp add: search_agent_def dict_get_def empty_state_def)
  from run_upstream_fields[of unreachable "'' ''"] obtain docs a v t r p where
    d: "snd (search_agent unreachable (empty_state\<lparr>topic_query := Some '' ''\<rparr>))
       = empty_state\<lparr>raw_documents := Some docs\<rparr>"
    and run: "run_research_workflow unreachable '' '' = (END, \<lparr>topic_query = Some '' '', raw_documents = Some docs,
         analysis_result = Some a, validation_result = Some v, final_summary = Some t,
         formatted_report = Some r, pdf_path = Some p\<rparr>)"
    by blast
  from d s have "docs = []" by (simp add: empty_state_def)
  with run s show ?thesis
    by (simp add: tier_failed_def primary_tier_def secondary_tier_def unreachable_def)
qed


subsection \<open>Report text structurer\<close>
















subsection \<open>Format stage\<close>

lemma generate_pdf_all_builds_fail:
  assumes "\<And>filename story. \<exists>e. doc_build env filename story = Inl e"
  shows "generate_pdf env topic summary an documents validation = []"
proof -
  obtain e1 where e1: "doc_build env (''outputs/Research_Report_'' @ take 50 (safe_topic_of topic) @ ''_''
            @ timestamp env Full @ ''.pdf'')
      (full_story (date_str env) topic summary an documents validation) = Inl e1"
    using assms by blast
  obtain e2 where e2: "doc_build env (''outputs/Research_Report_'' @ safe_topic_of topic @ ''_''
            @ timestamp env Simple @ ''.pdf'') (simple_story (date_str env) topic summary) = Inl e2"
    using assms by blast
  show ?thesis
    unfolding generate_pdf_def generate_simple_pdf_def Let_def e1 e2 by simp
qed

lemma formatter_agent_no_error_marker:
  "\<exists>r. formatted_report (formatter_agent env state) = Some r \<and> error r = None
     \<and> validation_status r = Some (dict_get (document_quality
          (dict_get (validation_result state) empty_validation)) ''unknown'')"
  by (simp add: formatter_agent_def formatter_try_def Let_def empty_state_def)

text \<open>
  C4. With a PDF library that raises at every build, the format stage returns the
  regular report: no \<open>error\<close> field, the validation status of the validator, and an
  empty \<open>pdf_path\<close>. \<open>generate_pdf\<close> and \<open>generate_simple_pdf\<close> catch the exception, so
  the \<open>except\<close> branch of \<open>formatter_agent\<close>, which would set the error field, is not
  taken.
\<close>

theorem formatter_agent_render_failure:
  "formatter_agent unreachable upstream_state =
     empty_state\<lparr>
       formatted_report := Some
         \<lparr>report_title = Some ''Research Report: Machine Learning'',
          summary_length = Some 65,
          key_findings = Some [''Neural''],
          report_keywords = Some [''machine'', ''learning'', ''neural'', ''uses'', ''nets'', ''models''],
          sources_used = Some 1,
          validation_status = Some ''poor'',
          validation_score = Some ''Medium'',
          error = None\<rparr>,
       pdf_path := Some []\<rparr>"
proof -
  have fail: "\<And>filename story. \<exists>e. doc_build unreachable filename story = Inl e"
    by (simp add: unreachable_def)
  have len: "length roundtrip_summary = 65" by (simp add: roundtrip_summary_def)
  show ?thesis
    by (simp add: formatter_agent_def formatter_try_def Let_def
        generate_pdf_all_builds_fail[OF fail] upstream_state_def dict_get_def len)
qed


text \<open>
  C5. The structurer gives the two sections of the example, numbered 1 and 2. The
  report joins the content lines of a section with a space before it looks for bullets
  line by line, so the two bullet lines of the second section come out as one bullet.
\<close>

theorem roundtrip_bullets_collapse:
  "clean_summary_text roundtrip_summary =
    [\<lparr>sec_title = ''Introduction'', content = [''This is text.''],
      original_title = ''Introduction'', number = Some 1\<rparr>,
     \<lparr>sec_title = ''Conclusion'', content = [''- point one'', ''- point two''],
      original_title = ''Conclusion'', number = Some 2\<rparr>]
  \<and> extract_bullet_content (join '' '' [''- point one'', ''- point two''])
      = [''point one - point two'']
  \<and> concat (map render_section (clean_summary_text roundtrip_summary)) =
     [Paragraph ''1. Introduction'' heading2, Spacer 1 8,
      Paragraph ''This is text.'' normal, Spacer 1 3, Spacer 1 10,
      Paragraph ''2. Conclusion'' heading2, Spacer 1 8,
      Paragraph ([bullet_char] @ '' point one - point two'') bullet, Spacer 1 2, Spacer 1 10]"
  by code_simp

text \<open>
  C8. A first section titled \<open>Research Summary Of Findings\<close> is dropped with its
  content, although its cleaned title is not \<open>research summary\<close>: the test is
  \<open>"research summary" in clean_title.lower()\<close>.
\<close>

theorem longer_title_dropped:
  "clean_summary_text findings_summary =
    [\<lparr>sec_title = ''Research Summary Of Findings'', content = [''Costs fell by half.''],
      original_title = ''Research Summary Of Findings'', number = Some 1\<rparr>]
  \<and> lower (clean_title_of ''Research Summary Of Findings'') = ''research summary of findings''
  \<and> concat (map render_section (clean_summary_text findings_summary)) = []"
  by code_simp

subsection \<open>Snippet length\<close>

text \<open>
  C9. A result of the second provider that has a \<open>snippet\<close> entry of 201 characters
  gives a document with that snippet, uncut; and with both providers out of reach a
  topic of 150 characters gives a placeholder whose snippet has 207 characters.
\<close>

theorem snippet_longer_than_200:
  "map (\<lambda>d. length (snippet d)) (dict_get (raw_documents (snd (search_agent long_snippet_provider
      (empty_state\<lparr>topic_query := Some ''Machine Learning''\<rparr>)))) []) = [201]
  \<and> map (\<lambda>d. length (snippet d)) (dict_get (raw_documents (snd (search_agent unreachable
      (empty_state\<lparr>topic_query := Some (replicate 150 (CHR ''x''))\<rparr>)))) []) = [207]"
  by code_simp

end
